theory Spec2Isabelle
  imports Complex_Main
begin

section \<open>The command-line music player of \<^verbatim>\<open>music.py\<close>\<close>

text \<open>
  The module has three classes: \<^verbatim>\<open>Song\<close>, \<^verbatim>\<open>MusicLibrary\<close> and \<^verbatim>\<open>MusicPlayer\<close>.
  Each class is a record of its attributes and each method is a function from the object
  (and what the method reads from outside) to the method's outcome, the calls it makes on
  the outside world, and the object as the method leaves it.

  Three things of the outside world are read by the methods and are parameters here:
  \<^item> \<^verbatim>\<open>os.listdir(music_dir)\<close>: the list of file names, given to the constructor;
  \<^item> \<^verbatim>\<open>time.time()\<close>: the clock reading \<open>now\<close>, given to every method that reads the
    clock (no method reads it twice);
  \<^item> whether one of the three \<^verbatim>\<open>pygame.mixer.music\<close> calls inside the \<^verbatim>\<open>try\<close> block of
    \<^verbatim>\<open>play\<close> raises \<^verbatim>\<open>pygame.error\<close>, and with which message.

  Python's floats (the volume, the clock, the elapsed time) are modelled as real numbers,
  and Python's strings as byte strings in UTF-8.
\<close>

subsection \<open>Songs and the library\<close>

record song =
  name :: string
  path :: string

record music_library =
  music_dir :: string
  songs :: "song list"

text \<open>\<^verbatim>\<open>str.endswith\<close> with one suffix.\<close>

definition endswith :: "string \<Rightarrow> string \<Rightarrow> bool" where
  "endswith s suf =
     (length suf \<le> length s \<and> drop (length s - length suf) s = suf)"

text \<open>\<^verbatim>\<open>os.path.join\<close> of two components on a POSIX system.\<close>

definition os_path_join :: "string \<Rightarrow> string \<Rightarrow> string" where
  "os_path_join a b =
     (if b \<noteq> [] \<and> hd b = CHR ''/'' then b
      else if a = [] \<or> last a = CHR ''/'' then a @ b
      else a @ ''/'' @ b)"

text \<open>
  \<^verbatim>\<open>MusicLibrary._load_songs\<close>: \<open>files\<close> is what \<^verbatim>\<open>os.listdir\<close> returns (the empty list
  for a directory that the method has just created).
\<close>

definition load_songs :: "string \<Rightarrow> string list \<Rightarrow> song list" where
  "load_songs dir files =
     map (\<lambda>file. \<lparr>name = file, path = os_path_join dir file\<rparr>)
       (filter (\<lambda>file. endswith file ''.mp3'') files)"

definition MusicLibrary_init :: "string \<Rightarrow> string list \<Rightarrow> music_library" where
  "MusicLibrary_init dir files = \<lparr>music_dir = dir, songs = load_songs dir files\<rparr>"

definition get_songs :: "music_library \<Rightarrow> song list" where
  "get_songs lib = songs lib"

subsection \<open>The player\<close>

record player =
  library :: music_library
  current_index :: int
  playing :: bool
  volume :: real
  start_time :: "real option"
  elapsed_time :: real

text \<open>The exceptions that leave a method of the player.\<close>

datatype error = IndexError | ZeroDivisionError | TypeError

datatype 'a outcome = Returned 'a | Raised error

text \<open>
  What a method does to the outside world, in the order of the calls: the calls on
  \<^verbatim>\<open>pygame.mixer.music\<close> and the lines printed.
\<close>

datatype event =
    Music_load string
  | Music_set_volume real
  | Music_play
  | Music_pause
  | Music_unpause
  | Music_stop
  | Print string

text \<open>
  The mixer inside the \<^verbatim>\<open>try\<close> block of \<^verbatim>\<open>play\<close>: either the three calls go through, or
  one of them raises \<^verbatim>\<open>pygame.error\<close> with a message.
\<close>

datatype mixer =
    Mixer_ok
  | Load_raises string
  | Set_volume_raises string
  | Play_raises string

type_synonym 'a result = "'a outcome \<times> event list \<times> player"

text \<open>
  \<^verbatim>\<open>xs[i]\<close> on a Python list: a negative index counts from the end, and an index outside
  \<open>[-n, n)\<close> raises \<^verbatim>\<open>IndexError\<close> (here \<open>None\<close>).
\<close>

definition py_getitem :: "'a list \<Rightarrow> int \<Rightarrow> 'a option" where
  "py_getitem xs i =
     (let n = int (length xs)
      in if 0 \<le> i \<and> i < n then Some (xs ! nat i)
         else if - n \<le> i \<and> i < 0 then Some (xs ! nat (n + i))
         else None)"

text \<open>The line that \<^verbatim>\<open>play\<close> prints when the mixer raises; the u with acute is two bytes.\<close>

definition load_error_message :: "string \<Rightarrow> string" where
  "load_error_message e =
     ''Erro ao carregar a m'' @ [CHR 0xC3, CHR 0xBA] @ ''sica: '' @ e"

text \<open>\<^verbatim>\<open>MusicPlayer.__init__\<close>; the library is built with the default directory.\<close>

definition MusicPlayer_init :: "string list \<Rightarrow> player" where
  "MusicPlayer_init files =
     \<lparr>library = MusicLibrary_init ''music'' files,
      current_index = 0,
      playing = False,
      volume = 0.5,
      start_time = None,
      elapsed_time = 0\<rparr>"

text \<open>
  \<^verbatim>\<open>MusicPlayer.play\<close>. The index is stored first. With songs in the library the song at
  the current index is fetched (which may raise \<^verbatim>\<open>IndexError\<close>), then loaded, the volume
  set and the song started; only after these three calls are \<^verbatim>\<open>start_time\<close> and
  \<^verbatim>\<open>playing\<close> assigned. A \<^verbatim>\<open>pygame.error\<close> is caught and printed.
\<close>

definition play :: "int option \<Rightarrow> mixer \<Rightarrow> real \<Rightarrow> player \<Rightarrow> unit result" where
  "play index mx now self =
     (let self1 = (case index of None \<Rightarrow> self | Some i \<Rightarrow> self\<lparr>current_index := i\<rparr>)
      in if songs (library self1) \<noteq> [] then
           (case py_getitem (songs (library self1)) (current_index self1) of
              None \<Rightarrow> (Raised IndexError, [], self1)
            | Some sg \<Rightarrow>
               (case mx of
                  Load_raises e \<Rightarrow>
                    (Returned (),
                     [Music_load (path sg), Print (load_error_message e)],
                     self1)
                | Set_volume_raises e \<Rightarrow>
                    (Returned (),
                     [Music_load (path sg), Music_set_volume (volume self1),
                      Print (load_error_message e)],
                     self1)
                | Play_raises e \<Rightarrow>
                    (Returned (),
                     [Music_load (path sg), Music_set_volume (volume self1), Music_play,
                      Print (load_error_message e)],
                     self1)
                | Mixer_ok \<Rightarrow>
                    (Returned (),
                     [Music_load (path sg), Music_set_volume (volume self1), Music_play],
                     self1\<lparr>start_time := Some now, playing := True\<rparr>)))
         else (Returned (), [], self1))"

text \<open>
  \<^verbatim>\<open>MusicPlayer.pause\<close>. In the first branch \<^verbatim>\<open>time.time() - self.start_time\<close> raises
  \<^verbatim>\<open>TypeError\<close> when \<^verbatim>\<open>start_time\<close> is \<^verbatim>\<open>None\<close>, after the mixer has been paused and
  before any attribute is assigned.
\<close>

definition pause :: "real \<Rightarrow> player \<Rightarrow> unit result" where
  "pause now self =
     (if playing self then
        (case start_time self of
           None \<Rightarrow> (Raised TypeError, [Music_pause], self)
         | Some t0 \<Rightarrow>
             (Returned (), [Music_pause],
              self\<lparr>elapsed_time := elapsed_time self + (now - t0),
                   start_time := None,
                   playing := False\<rparr>))
      else
        (Returned (), [Music_unpause],
         self\<lparr>start_time := Some now, playing := True\<rparr>))"

text \<open>\<^verbatim>\<open>MusicPlayer.stop\<close>.\<close>

definition stop :: "player \<Rightarrow> unit result" where
  "stop self =
     (Returned (), [Music_stop],
      self\<lparr>elapsed_time := 0, start_time := None, playing := False\<rparr>)"

text \<open>
  \<^verbatim>\<open>MusicPlayer.next_song\<close> and \<^verbatim>\<open>MusicPlayer.previous_song\<close>: \<^verbatim>\<open>stop\<close>, then the new index
  modulo the number of songs (\<^verbatim>\<open>ZeroDivisionError\<close> when there is none; Python's \<^verbatim>\<open>%\<close> with
  a positive divisor is \<open>mod\<close> on \<open>int\<close>), then \<^verbatim>\<open>play()\<close> with no index.
\<close>

definition next_song :: "mixer \<Rightarrow> real \<Rightarrow> player \<Rightarrow> unit result" where
  "next_song mx now self =
     (case stop self of (_, ev1, self1) \<Rightarrow>
        let n = int (length (songs (library self1)))
        in if n = 0 then (Raised ZeroDivisionError, ev1, self1)
           else
             (case play None mx now
                     (self1\<lparr>current_index := (current_index self1 + 1) mod n\<rparr>) of
                (r, ev2, self2) \<Rightarrow> (r, ev1 @ ev2, self2)))"

definition previous_song :: "mixer \<Rightarrow> real \<Rightarrow> player \<Rightarrow> unit result" where
  "previous_song mx now self =
     (case stop self of (_, ev1, self1) \<Rightarrow>
        let n = int (length (songs (library self1)))
        in if n = 0 then (Raised ZeroDivisionError, ev1, self1)
           else
             (case play None mx now
                     (self1\<lparr>current_index := (current_index self1 - 1) mod n\<rparr>) of
                (r, ev2, self2) \<Rightarrow> (r, ev1 @ ev2, self2)))"

text \<open>\<^verbatim>\<open>MusicPlayer.change_volume\<close>.\<close>

definition change_volume :: "bool \<Rightarrow> player \<Rightarrow> unit result" where
  "change_volume increase self =
     (let v = (if increase then min 1.0 (volume self + 0.1)
               else max 0.0 (volume self - 0.1))
      in (Returned (), [Music_set_volume v], self\<lparr>volume := v\<rparr>))"

text \<open>\<^verbatim>\<open>MusicPlayer.get_elapsed_time\<close>: no attribute is assigned.\<close>

definition get_elapsed_time :: "real \<Rightarrow> player \<Rightarrow> real result" where
  "get_elapsed_time now self =
     (case start_time self of
        None \<Rightarrow> (Returned (elapsed_time self), [], self)
      | Some t0 \<Rightarrow>
          (Returned (elapsed_time self + (if playing self then now - t0 else 0)),
           [], self))"

subsection \<open>Sequences of calls\<close>

text \<open>
  A call of one of the state-changing methods, with what it reads from outside. The
  player after a sequence of calls is the player that the last call leaves, whether a
  call returned or raised (a raised exception leaves the object as it is at that point).
\<close>

datatype command =
    Play "int option" mixer real
  | Pause real
  | Stop
  | Next mixer real
  | Previous mixer real
  | ChangeVolume bool

fun call :: "command \<Rightarrow> player \<Rightarrow> unit result" where
  "call (Play index mx now) self = play index mx now self"
| "call (Pause now) self = pause now self"
| "call Stop self = stop self"
| "call (Next mx now) self = next_song mx now self"
| "call (Previous mx now) self = previous_song mx now self"
| "call (ChangeVolume increase) self = change_volume increase self"

definition after :: "'a result \<Rightarrow> player" where
  "after r = snd (snd r)"

definition raised :: "'a result \<Rightarrow> error option" where
  "raised r = (case fst r of Returned _ \<Rightarrow> None | Raised e \<Rightarrow> Some e)"

definition returned :: "'a result \<Rightarrow> 'a option" where
  "returned r = (case fst r of Returned v \<Rightarrow> Some v | Raised _ \<Rightarrow> None)"

fun run :: "command list \<Rightarrow> player \<Rightarrow> player" where
  "run [] self = self"
| "run (c # cs) self = run cs (after (call c self))"

definition events :: "'a result \<Rightarrow> event list" where
  "events r = fst (snd r)"

text \<open>
  The relation between the two attributes of the open playing interval: a start time is
  stored exactly when the playing flag is set.
\<close>

definition interval_invariant :: "player \<Rightarrow> bool" where
  "interval_invariant self = ((start_time self \<noteq> None) = playing self)"

section \<open>The freshly constructed player\<close>

text \<open>
  Claim C10. A freshly constructed player, whatever the music directory holds, has
  volume 0.5, is not playing, has current index 0, elapsed time 0 and no start time.
\<close>

theorem init_state:
  "volume (MusicPlayer_init files) = 0.5
   \<and> playing (MusicPlayer_init files) = False
   \<and> current_index (MusicPlayer_init files) = 0
   \<and> elapsed_time (MusicPlayer_init files) = 0
   \<and> start_time (MusicPlayer_init files) = None"
  by (simp add: MusicPlayer_init_def)

section \<open>Facts shared by the proofs\<close>

lemmas method_defs = play_def pause_def stop_def next_song_def previous_song_def
  change_volume_def

lemma library_call: "library (after (call c s)) = library s"
  by (cases c)
     (auto simp: after_def method_defs Let_def split: option.splits mixer.splits)

lemma library_run: "library (run cs s) = library s"
  by (induction cs arbitrary: s) (simp_all add: library_call)

lemma invariant_init: "interval_invariant (MusicPlayer_init files)"
  by (simp add: interval_invariant_def MusicPlayer_init_def)

lemma invariant_call:
  "interval_invariant s \<Longrightarrow> interval_invariant (after (call c s))"
  by (cases c)
     (auto simp: interval_invariant_def after_def method_defs Let_def
        split: option.splits mixer.splits)

lemma invariant_run: "interval_invariant s \<Longrightarrow> interval_invariant (run cs s)"
  by (induction cs arbitrary: s) (simp_all add: invariant_call)

section \<open>The playing interval\<close>

text \<open>
  Claim C2. The start time is set if and only if the playing flag is true: in the freshly
  constructed player, in the player after any sequence of calls of play, pause, stop,
  next_song, previous_song and change_volume (with any arguments, clock readings and
  mixer failures, and whether the calls return or raise), and after one more call.
\<close>

theorem start_time_iff_playing:
  "interval_invariant (MusicPlayer_init files)
   \<and> interval_invariant (run cs (MusicPlayer_init files))
   \<and> interval_invariant (after (call c (run cs (MusicPlayer_init files))))"
  by (simp add: invariant_init invariant_run invariant_call)

section \<open>Elapsed time\<close>

lemma get_elapsed_time_invariant:
  assumes "interval_invariant p"
  shows "(start_time p = None \<longrightarrow>
            get_elapsed_time now p = (Returned (elapsed_time p), [], p))
         \<and> (\<forall>t0. start_time p = Some t0 \<longrightarrow>
              get_elapsed_time now p = (Returned (elapsed_time p + (now - t0)), [], p))"
  using assms by (auto simp: get_elapsed_time_def interval_invariant_def)

lemma scenario:
  assumes "py_getitem (songs (library s)) (current_index s) \<noteq> None" "elapsed_time s = 0"
  shows "get_elapsed_time 10 (run [Play None Mixer_ok 0, Pause 5, Pause 8] s) = 
     (Returned 7, [], s\<lparr>start_time := Some 8, playing := True, elapsed_time := 5\<rparr>)"
proof -
  from assms(1) have ne: "songs (library s) \<noteq> []"
    by (auto simp: py_getitem_def Let_def split: if_splits)
  from assms(1) obtain sg where sg: "py_getitem (songs (library s)) (current_index s) = Some sg"
    by auto
  show ?thesis using ne sg assms(2)
    by (simp add: after_def play_def pause_def get_elapsed_time_def)
qed

text \<open>
  Claim C1. Let a player with elapsed time 0 (a fresh one, or one that was stopped) have a
  song at its current index. After play() at clock 0, pause() at 5 and pause() at 8,
  get_elapsed_time() at clock 10 returns 7. And in every player that a sequence of calls
  can produce from a fresh one, get_elapsed_time() returns the elapsed time when no start
  time is set and the elapsed time plus (now - start time) when one is set, makes no call
  on the mixer and leaves the player as it is.
\<close>

theorem elapsed_time_accounting:
  "(py_getitem (songs (library s)) (current_index s) \<noteq> None \<and> elapsed_time s = 0 \<longrightarrow>
      returned (get_elapsed_time 10 (run [Play None Mixer_ok 0, Pause 5, Pause 8] s)) = Some 7)
   \<and> (start_time (run cs (MusicPlayer_init files)) = None \<longrightarrow>
        get_elapsed_time now (run cs (MusicPlayer_init files))
        = (Returned (elapsed_time (run cs (MusicPlayer_init files))), [],
           run cs (MusicPlayer_init files)))
   \<and> (\<forall>t0. start_time (run cs (MusicPlayer_init files)) = Some t0 \<longrightarrow>
        get_elapsed_time now (run cs (MusicPlayer_init files))
        = (Returned (elapsed_time (run cs (MusicPlayer_init files)) + (now - t0)), [],
           run cs (MusicPlayer_init files)))"
proof -
  have "interval_invariant (run cs (MusicPlayer_init files))"
    by (simp add: invariant_init invariant_run)
  from get_elapsed_time_invariant [OF this, of now]
  have general: "(start_time (run cs (MusicPlayer_init files)) = None \<longrightarrow>
        get_elapsed_time now (run cs (MusicPlayer_init files))
        = (Returned (elapsed_time (run cs (MusicPlayer_init files))), [],
           run cs (MusicPlayer_init files)))
   \<and> (\<forall>t0. start_time (run cs (MusicPlayer_init files)) = Some t0 \<longrightarrow>
        get_elapsed_time now (run cs (MusicPlayer_init files))
        = (Returned (elapsed_time (run cs (MusicPlayer_init files)) + (now - t0)), [],
           run cs (MusicPlayer_init files)))" .
  have "py_getitem (songs (library s)) (current_index s) \<noteq> None \<and> elapsed_time s = 0 \<longrightarrow>
      returned (get_elapsed_time 10 (run [Play None Mixer_ok 0, Pause 5, Pause 8] s)) = Some 7"
    using scenario [of s] by (simp only: returned_def fst_conv outcome.case) simp
  with general show ?thesis by blast
qed

lemma songs_one: "songs (library (MusicPlayer_init [''a.mp3''])) = [\<lparr>name = ''a.mp3'', path = ''music/a.mp3''\<rparr>]"
  by (simp add: MusicPlayer_init_def MusicLibrary_init_def load_songs_def endswith_def os_path_join_def)

theorem elapsed_time_accounting_witness:
  "returned (get_elapsed_time 10
      (run [Play None Mixer_ok 0, Pause 5, Pause 8] (MusicPlayer_init [''a.mp3'']))) = Some 7
   \<and> returned (get_elapsed_time 3 (run [] (MusicPlayer_init [''a.mp3'']))) = Some 0
   \<and> returned (get_elapsed_time 3 (run [Play None Mixer_ok 1] (MusicPlayer_init [''a.mp3'']))) = Some 2"
proof -
  let ?s = "MusicPlayer_init [''a.mp3'']"
  have h: "py_getitem (songs (library ?s)) (current_index ?s) \<noteq> None \<and> elapsed_time ?s = 0"
    by (simp add: songs_one py_getitem_def) (simp add: MusicPlayer_init_def)
  have a: "start_time (run [] ?s) = None"
    by (simp add: MusicPlayer_init_def)
  have b: "start_time (run [Play None Mixer_ok 1] ?s) = Some 1"
    by (simp add: after_def play_def songs_one py_getitem_def) (simp add: MusicPlayer_init_def)
  have e: "elapsed_time (run [Play None Mixer_ok 1] ?s) = 0"
    by (simp add: after_def play_def songs_one py_getitem_def) (simp add: MusicPlayer_init_def)
  have e0: "elapsed_time (run [] ?s) = 0"
    by (simp add: MusicPlayer_init_def)
  from elapsed_time_accounting [of ?s "[]" "[''a.mp3'']" 3]
       elapsed_time_accounting [of ?s "[Play None Mixer_ok 1]" "[''a.mp3'']" 3]
       h a b e e0
  show ?thesis by (simp add: returned_def)
qed

section \<open>Pausing\<close>

text \<open>
  Claim C3, as stated, fails. A player that has just been stopped is not playing and has
  no start time; pause() on it sets the playing flag and a start time.
\<close>

theorem pause_when_stopped_counterexample:
  "\<not> playing (after (stop (MusicPlayer_init [])))
   \<and> start_time (after (stop (MusicPlayer_init []))) = None
   \<and> playing (after (pause 1 (after (stop (MusicPlayer_init [])))))
   \<and> start_time (after (pause 1 (after (stop (MusicPlayer_init []))))) = Some 1"
  by (simp add: after_def stop_def pause_def MusicPlayer_init_def)

text \<open>
  Claim C3, amended. The player has one playing flag and does not tell a stopped player
  from a paused one. pause() on a player that is not playing returns normally, tells the
  mixer to unpause, sets the start time to the current clock reading and the playing flag
  to true, and leaves the elapsed time, the current index and the volume as they are.
\<close>

theorem pause_when_not_playing:
  "\<not> playing s \<Longrightarrow>
     pause now s = (Returned (), [Music_unpause], s\<lparr>start_time := Some now, playing := True\<rparr>)"
  by (simp add: pause_def)

theorem pause_when_not_playing_witness:
  "\<not> playing (MusicPlayer_init [])
   \<and> pause 1 (MusicPlayer_init [])
       = (Returned (), [Music_unpause],
          (MusicPlayer_init [])\<lparr>start_time := Some 1, playing := True\<rparr>)"
proof -
  have h: "\<not> playing (MusicPlayer_init [])"
    by (simp add: MusicPlayer_init_def)
  from h pause_when_not_playing [OF h, of 1] show ?thesis by simp
qed

section \<open>Playing\<close>

text \<open>
  Claim C4. A successful play() should leave the elapsed time at 0. In the code it does
  not: play() assigns the start time and the playing flag only. With one song, play(0)
  at clock 0, pause() at 5 and play(0) at 8 (the mixer succeeding each time),
  get_elapsed_time() at clock 8 returns 5 where the claim says 0.
\<close>

theorem play_keeps_elapsed_time:
  "returned (get_elapsed_time 8
     (run [Play (Some 0) Mixer_ok 0, Pause 5, Play (Some 0) Mixer_ok 8]
        (MusicPlayer_init [''a.mp3'']))) = Some 5"
  by (simp add: after_def play_def pause_def get_elapsed_time_def returned_def
        songs_one py_getitem_def)
     (simp add: MusicPlayer_init_def)

text \<open>
  Claim C5, as stated, fails. On a player with no songs, play(3) returns normally (no
  error is signalled) and the current index, 0 before the call, is 3 after it.
\<close>

theorem play_empty_catalog_counterexample:
  "songs (library (MusicPlayer_init [])) = []
   \<and> raised (play (Some 3) Mixer_ok 0 (MusicPlayer_init [])) = None
   \<and> current_index (MusicPlayer_init []) = 0
   \<and> current_index (after (play (Some 3) Mixer_ok 0 (MusicPlayer_init []))) = 3"
  by (simp add: after_def raised_def play_def MusicPlayer_init_def MusicLibrary_init_def
        load_songs_def)

text \<open>
  Claim C5, amended. play() on a player with no songs raises nothing, prints nothing and
  makes no call on the mixer; it leaves the playing flag, the volume, the start time and
  the elapsed time as they are, and the current index too when no index is given; when
  an index is given, the current index is set to it.
\<close>

theorem play_empty_catalog:
  "songs (library s) = [] \<Longrightarrow>
     play index mx now s
     = (Returned (), [],
        s\<lparr>current_index := (case index of None \<Rightarrow> current_index s | Some i \<Rightarrow> i)\<rparr>)"
  by (cases index) (simp_all add: play_def)

theorem play_empty_catalog_witness:
  "songs (library (MusicPlayer_init [''notes.txt''])) = []
   \<and> play None Mixer_ok 2 (MusicPlayer_init [''notes.txt''])
       = (Returned (), [], MusicPlayer_init [''notes.txt''])
   \<and> play (Some 3) Mixer_ok 2 (MusicPlayer_init [''notes.txt''])
       = (Returned (), [], (MusicPlayer_init [''notes.txt''])\<lparr>current_index := 3\<rparr>)"
proof -
  have h: "songs (library (MusicPlayer_init [''notes.txt''])) = []"
    by (simp add: MusicPlayer_init_def MusicLibrary_init_def load_songs_def endswith_def)
  from h play_empty_catalog [OF h, of None Mixer_ok 2]
       play_empty_catalog [OF h, of "Some 3" Mixer_ok 2]
  show ?thesis by simp
qed

section \<open>Next and previous song\<close>

text \<open>
  Claim C7. next_song() and previous_song() on a player with no songs should complete
  without an error. In the code both raise ZeroDivisionError, from the modulo by the
  number of songs, after stop() has run.
\<close>

theorem next_previous_empty_catalog:
  "songs (library (MusicPlayer_init [])) = []
   \<and> raised (next_song Mixer_ok 0 (MusicPlayer_init [])) = Some ZeroDivisionError
   \<and> raised (previous_song Mixer_ok 0 (MusicPlayer_init [])) = Some ZeroDivisionError"
  by (simp add: raised_def next_song_def previous_song_def stop_def MusicPlayer_init_def
        MusicLibrary_init_def load_songs_def)

lemma next_song_index:
  assumes "songs (library s) \<noteq> []"
  shows "current_index (after (next_song mx now s))
         = (current_index s + 1) mod int (length (songs (library s)))"
    and "raised (next_song mx now s) = None"
proof -
  let ?n = "int (length (songs (library s)))"
  let ?j = "(current_index s + 1) mod ?n"
  from assms have n: "0 < ?n" by simp
  then have "0 \<le> ?j" "?j < ?n" by simp_all
  then have "py_getitem (songs (library s)) ?j = Some (songs (library s) ! nat ?j)"
    by (simp add: py_getitem_def)
  with assms show "current_index (after (next_song mx now s)) = ?j"
    and "raised (next_song mx now s) = None"
    by (cases mx; simp add: after_def raised_def next_song_def stop_def play_def Let_def)+
qed

lemma previous_song_index:
  assumes "songs (library s) \<noteq> []"
  shows "current_index (after (previous_song mx now s))
         = (current_index s - 1) mod int (length (songs (library s)))"
    and "raised (previous_song mx now s) = None"
proof -
  let ?n = "int (length (songs (library s)))"
  let ?j = "(current_index s - 1) mod ?n"
  from assms have n: "0 < ?n" by simp
  then have "0 \<le> ?j" "?j < ?n" by simp_all
  then have "py_getitem (songs (library s)) ?j = Some (songs (library s) ! nat ?j)"
    by (simp add: py_getitem_def)
  with assms show "current_index (after (previous_song mx now s)) = ?j"
    and "raised (previous_song mx now s) = None"
    by (cases mx; simp add: after_def raised_def previous_song_def stop_def play_def Let_def)+
qed

lemma run_next_index:
  assumes "songs (library s) \<noteq> []"
    and "0 \<le> current_index s"
    and "current_index s < int (length (songs (library s)))"
  shows "current_index (run (map (\<lambda>(mx, now). Next mx now) envs) s)
         = (current_index s + int (length envs)) mod int (length (songs (library s)))"
  using assms
proof (induction envs arbitrary: s)
  case Nil
  then show ?case by simp
next
  case (Cons e envs)
  obtain mx now where e: "e = (mx, now)" by (cases e)
  let ?n = "int (length (songs (library s)))"
  let ?s' = "after (next_song mx now s)"
  have lib: "library ?s' = library s"
    using library_call [of "Next mx now" s] by simp
  have idx: "current_index ?s' = (current_index s + 1) mod ?n"
    using Cons.prems(1) by (rule next_song_index(1))
  from Cons.prems(1) have n: "0 < ?n" by simp
  have "current_index (run (map (\<lambda>(mx, now). Next mx now) envs) ?s')
        = (current_index ?s' + int (length envs)) mod int (length (songs (library ?s')))"
    using Cons.prems(1) n by (intro Cons.IH) (simp_all add: lib idx)
  also have "\<dots> = ((current_index s + 1) mod ?n + int (length envs)) mod ?n"
    by (simp add: lib idx)
  also have "\<dots> = (current_index s + 1 + int (length envs)) mod ?n"
    by (rule mod_add_left_eq)
  also have "current_index s + 1 + int (length envs) = current_index s + int (length (e # envs))"
    by simp
  finally show ?case by (simp add: e)
qed

text \<open>
  Claim C6. With N > 0 songs and the current index in [0, N): N calls of next_song()
  (whatever the clock and the mixer do in each) bring the current index back to where it
  was; next_song() moves it to (index + 1) mod N and previous_song() to
  (index - 1 + N) mod N; next_song() followed by previous_song(), and previous_song()
  followed by next_song(), restore it; and neither call raises.
\<close>

theorem wrap_around:
  "songs (library s) \<noteq> [] \<Longrightarrow> 0 \<le> current_index s \<Longrightarrow>
   current_index s < int (length (songs (library s))) \<Longrightarrow>
     (length envs = length (songs (library s)) \<longrightarrow>
        current_index (run (map (\<lambda>(mx, now). Next mx now) envs) s) = current_index s)
     \<and> current_index (after (next_song mx now s))
         = (current_index s + 1) mod int (length (songs (library s)))
     \<and> current_index (after (previous_song mx now s))
         = (current_index s - 1 + int (length (songs (library s))))
             mod int (length (songs (library s)))
     \<and> current_index (run [Next mx now, Previous mx' now'] s) = current_index s
     \<and> current_index (run [Previous mx now, Next mx' now'] s) = current_index s
     \<and> raised (next_song mx now s) = None
     \<and> raised (previous_song mx now s) = None"
proof -
  assume ne: "songs (library s) \<noteq> []"
    and lo: "0 \<le> current_index s"
    and hi: "current_index s < int (length (songs (library s)))"
  let ?n = "int (length (songs (library s)))"
  let ?i = "current_index s"
  let ?sn = "after (next_song mx now s)"
  let ?sp = "after (previous_song mx now s)"
  have libn: "library ?sn = library s"
    using library_call [of "Next mx now" s] by simp
  have libp: "library ?sp = library s"
    using library_call [of "Previous mx now" s] by simp
  have a: "length envs = length (songs (library s)) \<longrightarrow>
        current_index (run (map (\<lambda>(mx, now). Next mx now) envs) s) = ?i"
    using run_next_index [OF ne lo hi, of envs] lo hi by auto
  have b: "current_index ?sn = (?i + 1) mod ?n"
    using ne by (rule next_song_index(1))
  have c0: "current_index ?sp = (?i - 1) mod ?n"
    using ne by (rule previous_song_index(1))
  have c: "current_index ?sp = (?i - 1 + ?n) mod ?n"
    using c0 by simp
  have "current_index (after (previous_song mx' now' ?sn)) = (current_index ?sn - 1) mod ?n"
    using previous_song_index(1) [of ?sn mx' now'] ne by (simp add: libn)
  also have "\<dots> = ((?i + 1) mod ?n - 1) mod ?n" by (simp only: b)
  also have "\<dots> = (?i + 1 - 1) mod ?n" by (rule mod_diff_left_eq)
  also have "\<dots> = ?i" using lo hi by simp
  finally have d: "current_index (run [Next mx now, Previous mx' now'] s) = ?i" by simp
  have "current_index (after (next_song mx' now' ?sp)) = (current_index ?sp + 1) mod ?n"
    using next_song_index(1) [of ?sp mx' now'] ne by (simp add: libp)
  also have "\<dots> = ((?i - 1) mod ?n + 1) mod ?n" by (simp only: c0)
  also have "\<dots> = (?i - 1 + 1) mod ?n" by (rule mod_add_left_eq)
  also have "\<dots> = ?i" using lo hi by simp
  finally have e: "current_index (run [Previous mx now, Next mx' now'] s) = ?i" by simp
  from a b c d e next_song_index(2) [OF ne] previous_song_index(2) [OF ne]
  show ?thesis by blast
qed

lemma songs_three:
  "songs (library (MusicPlayer_init [''a.mp3'', ''b.mp3'', ''c.mp3'']))
   = [\<lparr>name = ''a.mp3'', path = ''music/a.mp3''\<rparr>,
      \<lparr>name = ''b.mp3'', path = ''music/b.mp3''\<rparr>,
      \<lparr>name = ''c.mp3'', path = ''music/c.mp3''\<rparr>]"
  by (simp add: MusicPlayer_init_def MusicLibrary_init_def load_songs_def endswith_def
        os_path_join_def)

theorem wrap_around_witness:
  "songs (library (MusicPlayer_init [''a.mp3'', ''b.mp3'', ''c.mp3''])) \<noteq> []
   \<and> current_index (MusicPlayer_init [''a.mp3'', ''b.mp3'', ''c.mp3'']) = 0
   \<and> length (songs (library (MusicPlayer_init [''a.mp3'', ''b.mp3'', ''c.mp3'']))) = 3
   \<and> current_index
        (run [Next Mixer_ok 1, Next (Load_raises ''bad file'') 2, Next Mixer_ok 3]
           (MusicPlayer_init [''a.mp3'', ''b.mp3'', ''c.mp3''])) = 0
   \<and> current_index
        (after (next_song Mixer_ok 1 (MusicPlayer_init [''a.mp3'', ''b.mp3'', ''c.mp3'']))) = 1
   \<and> current_index
        (after (previous_song Mixer_ok 1
           (MusicPlayer_init [''a.mp3'', ''b.mp3'', ''c.mp3'']))) = 2
   \<and> current_index
        (run [Next Mixer_ok 1, Previous Mixer_ok 2]
           (MusicPlayer_init [''a.mp3'', ''b.mp3'', ''c.mp3''])) = 0"
proof -
  let ?s = "MusicPlayer_init [''a.mp3'', ''b.mp3'', ''c.mp3'']"
  have i: "current_index ?s = 0" by (simp add: MusicPlayer_init_def)
  have ne: "songs (library ?s) \<noteq> []" by (simp add: songs_three)
  have len: "length (songs (library ?s)) = 3" by (simp add: songs_three)
  have lo: "0 \<le> current_index ?s" by (simp add: i)
  have hi: "current_index ?s < int (length (songs (library ?s)))" by (simp add: i len)
  from wrap_around [OF ne lo hi,
      of "[(Mixer_ok, 1), (Load_raises ''bad file'', 2), (Mixer_ok, 3)]"
         Mixer_ok 1 Mixer_ok 2]
  show ?thesis using ne by (simp add: i len)
qed

section \<open>A failing mixer\<close>

lemma songs_two:
  "songs (library (MusicPlayer_init [''a.mp3'', ''b.mp3'']))
   = [\<lparr>name = ''a.mp3'', path = ''music/a.mp3''\<rparr>,
      \<lparr>name = ''b.mp3'', path = ''music/b.mp3''\<rparr>]"
  by (simp add: MusicPlayer_init_def MusicLibrary_init_def load_songs_def endswith_def
        os_path_join_def)

text \<open>
  Claim C8, as stated, fails. With two songs and the first one playing, play(1) with a
  mixer that cannot load the second song returns normally with the current index 1 and
  the playing flag still true.
\<close>

theorem play_mixer_failure_counterexample:
  "raised (play (Some 1) (Load_raises ''corrupt file'') 3
      (run [Play (Some 0) Mixer_ok 0] (MusicPlayer_init [''a.mp3'', ''b.mp3'']))) = None
   \<and> current_index (after (play (Some 1) (Load_raises ''corrupt file'') 3
      (run [Play (Some 0) Mixer_ok 0] (MusicPlayer_init [''a.mp3'', ''b.mp3''])))) = 1
   \<and> playing (after (play (Some 1) (Load_raises ''corrupt file'') 3
      (run [Play (Some 0) Mixer_ok 0] (MusicPlayer_init [''a.mp3'', ''b.mp3'']))))"
  by (simp add: after_def raised_def play_def songs_two py_getitem_def)

text \<open>
  Claim C8, amended. When the mixer raises in play() (for an index at which the library
  has a song), play() returns normally, the last thing it does is print the error
  message, the current index is the requested one and every other attribute is as it was
  before the call: in particular the playing flag keeps its value, so the player is not
  playing after the call exactly when it was not playing before it.
\<close>

theorem play_mixer_failure:
  "py_getitem (songs (library s)) (case index of None \<Rightarrow> current_index s | Some i \<Rightarrow> i)
     \<noteq> None \<Longrightarrow>
   mx \<noteq> Mixer_ok \<Longrightarrow>
     raised (play index mx now s) = None
     \<and> after (play index mx now s)
         = s\<lparr>current_index := (case index of None \<Rightarrow> current_index s | Some i \<Rightarrow> i)\<rparr>
     \<and> (\<exists>e. last (events (play index mx now s)) = Print (load_error_message e))
     \<and> playing (after (play index mx now s)) = playing s"
proof -
  let ?i = "case index of None \<Rightarrow> current_index s | Some i \<Rightarrow> i"
  assume "py_getitem (songs (library s)) ?i \<noteq> None" and mx: "mx \<noteq> Mixer_ok"
  then obtain sg where sg: "py_getitem (songs (library s)) ?i = Some sg" by auto
  then have ne: "songs (library s) \<noteq> []"
    by (auto simp: py_getitem_def Let_def split: if_splits)
  from sg ne mx show ?thesis
    by (cases index; cases mx)
       (auto simp: after_def raised_def events_def play_def)
qed

theorem play_mixer_failure_witness:
  "py_getitem (songs (library (MusicPlayer_init [''a.mp3'', ''b.mp3''])))
      (case Some 1 of None \<Rightarrow> current_index (MusicPlayer_init [''a.mp3'', ''b.mp3''])
       | Some i \<Rightarrow> i) \<noteq> None
   \<and> Load_raises ''corrupt file'' \<noteq> Mixer_ok
   \<and> raised (play (Some 1) (Load_raises ''corrupt file'') 3
         (MusicPlayer_init [''a.mp3'', ''b.mp3''])) = None
   \<and> after (play (Some 1) (Load_raises ''corrupt file'') 3
         (MusicPlayer_init [''a.mp3'', ''b.mp3'']))
       = (MusicPlayer_init [''a.mp3'', ''b.mp3''])\<lparr>current_index := 1\<rparr>
   \<and> \<not> playing (after (play (Some 1) (Load_raises ''corrupt file'') 3
         (MusicPlayer_init [''a.mp3'', ''b.mp3''])))"
proof -
  let ?s = "MusicPlayer_init [''a.mp3'', ''b.mp3'']"
  have h1: "py_getitem (songs (library ?s))
      (case Some 1 of None \<Rightarrow> current_index ?s | Some i \<Rightarrow> i) \<noteq> None"
    by (simp add: songs_two py_getitem_def)
  have h2: "Load_raises ''corrupt file'' \<noteq> Mixer_ok" by simp
  have p: "\<not> playing ?s" by (simp add: MusicPlayer_init_def)
  from play_mixer_failure [OF h1 h2, of 3] h1 p show ?thesis by simp
qed

section \<open>Volume\<close>

text \<open>
  Claim C9. change_volume from volume 0.95 upwards gives exactly 1, from 0.05 downwards
  exactly 0; in general the new volume is the old one plus 0.1 capped at 1, or minus 0.1
  floored at 0, the mixer is given the new volume and no other attribute changes; a
  volume in [0, 1] stays in [0, 1]; and the call returns normally in every state of the
  player.
\<close>

theorem volume_clamping:
  "volume (after (change_volume True (s\<lparr>volume := 0.95\<rparr>))) = 1
   \<and> volume (after (change_volume False (s\<lparr>volume := 0.05\<rparr>))) = 0
   \<and> change_volume True s
       = (Returned (), [Music_set_volume (min 1 (volume s + 0.1))],
          s\<lparr>volume := min 1 (volume s + 0.1)\<rparr>)
   \<and> change_volume False s
       = (Returned (), [Music_set_volume (max 0 (volume s - 0.1))],
          s\<lparr>volume := max 0 (volume s - 0.1)\<rparr>)
   \<and> (0 \<le> volume s \<and> volume s \<le> 1 \<longrightarrow>
        0 \<le> volume (after (change_volume increase s))
        \<and> volume (after (change_volume increase s)) \<le> 1)
   \<and> raised (change_volume increase s) = None"
  by (auto simp: after_def raised_def change_volume_def Let_def)

theorem volume_clamping_witness:
  "0 \<le> volume (MusicPlayer_init []) \<and> volume (MusicPlayer_init []) \<le> 1
   \<and> volume (after (change_volume True (MusicPlayer_init []))) = 0.6
   \<and> volume (after (change_volume False (MusicPlayer_init []))) = 0.4
   \<and> 0 \<le> volume (after (change_volume True (MusicPlayer_init [])))
   \<and> volume (after (change_volume True (MusicPlayer_init []))) \<le> 1"
proof -
  have h: "0 \<le> volume (MusicPlayer_init []) \<and> volume (MusicPlayer_init []) \<le> 1"
    by (simp add: MusicPlayer_init_def)
  have v: "volume (MusicPlayer_init []) = 0.5"
    by (simp add: MusicPlayer_init_def)
  from volume_clamping [of "MusicPlayer_init []" True] h
  have "0 \<le> volume (after (change_volume True (MusicPlayer_init [])))
        \<and> volume (after (change_volume True (MusicPlayer_init []))) \<le> 1
        \<and> volume (after (change_volume True (MusicPlayer_init []))) = min 1 (0.5 + 0.1)
        \<and> volume (after (change_volume False (MusicPlayer_init []))) = max 0 (0.5 - 0.1)"
    by (simp add: after_def v)
  with h show ?thesis by simp
qed

end
